theory Spec2Isabelle
  imports Main "HOL-Library.Word"
begin

section \<open>The embedding bridge of gpi_embed.cpp\<close>

text \<open>
  The unit embeds the Python runtime in a simulator. Its four exported functions
  (\<^verbatim>\<open>_embed_init_python\<close>, \<^verbatim>\<open>_embed_sim_cleanup\<close>, \<^verbatim>\<open>_embed_sim_init\<close>,
  \<^verbatim>\<open>_embed_sim_event\<close>) work on two static variables, \<^verbatim>\<open>gtstate\<close> and
  \<^verbatim>\<open>pEventFn\<close>, and on the runtime behind the Python C API. The model passes the
  state explicitly. What a library call answers is an input (the record \<open>libs\<close>);
  what the unit does to the outside (logging, calls into the runtime, sleeping) is
  appended to a trace. An identifier of the source that starts with an underscore
  loses it (\<open>embed_sim_init\<close> for \<^verbatim>\<open>_embed_sim_init\<close>).

  The build modelled is the one for POSIX with a 64-bit \<^verbatim>\<open>unsigned long\<close>, with
  assertions compiled in. Memory that is only allocated and freed
  (\<^verbatim>\<open>PyMem_RawFree\<close>, \<^verbatim>\<open>PyConfig_Clear\<close>) is left out.
\<close>

subsection \<open>Data\<close>

text \<open>A \<^verbatim>\<open>PyObject *\<close> is an address; \<^verbatim>\<open>NULL\<close> is \<open>None\<close> of the option type.\<close>

type_synonym pyobj = nat

text \<open>A \<^verbatim>\<open>wchar_t\<close> string and an interpreter-native \<^verbatim>\<open>str\<close>, as code points.
  A \<^verbatim>\<open>char\<close> string is a \<open>string\<close>: a list of bytes.\<close>

type_synonym wstring = "nat list"
type_synonym unicode = "nat list"

text \<open>The log levels of gpi_logging.h, by name.\<close>

datatype gpi_log_level = GPITrace | GPIDebug | GPIInfo | GPIWarning | GPIError | GPICritical

text \<open>Who holds the right to execute.\<close>

datatype holder = Host | Interpreter

text \<open>
  What the unit does to the outside, in order. \<open>Log\<close> keeps the level and the
  format string of a \<^verbatim>\<open>LOG_INFO\<close> or \<^verbatim>\<open>LOG_ERROR\<close>. The list handed to the entry
  point is the content of \<^verbatim>\<open>argv_list\<close>: one slot per index, \<open>None\<close> for a slot
  still \<^verbatim>\<open>NULL\<close>.
\<close>

datatype effect =
    Log gpi_log_level string
  | Logger_set_level gpi_log_level
  | Logger_initialize pyobj pyobj
  | Logger_finalize
  | To_python
  | To_simulator
  | GILState_Ensure
  | GILState_Release
  | Initialize wstring
  | Finalize
  | SaveThread
  | ErrPrint
  | DecRef pyobj
  | ImportModule string
  | CallMethod pyobj string
  | GetAttrString pyobj string
  | List_New int
  | DecodeLocale string string
  | Call_entry pyobj "unicode option list"
  | Call_event pyobj string
  | Sleep nat

text \<open>
  The state: the two static variables of the unit, whether the runtime is
  initialised (what \<^verbatim>\<open>Py_IsInitialized()\<close> answers), the holder of the execution
  token, and the trace.
\<close>

record bridge =
  gtstate :: "nat option"
  pEventFn :: "pyobj option"
  py_initialized :: bool
  token :: holder
  trace :: "effect list"

text \<open>A \<^verbatim>\<open>PyStatus\<close>, as far as the unit reads it.\<close>

record pystatus =
  exception :: bool
  err_msg :: "string option"
  func :: "string option"

text \<open>
  The answers of the library calls in one execution of an exported function. The
  runtime is an external collaborator, so each answer is an input of the model:
  \<open>None\<close> is a \<^verbatim>\<open>NULL\<close> (or \<^verbatim>\<open>-1\<close>) result with an error set.
  \<open>PyEval_SaveThread\<close> is the thread state that call returns, never \<^verbatim>\<open>NULL\<close>.
  \<open>errno_before_strtoul\<close> is the value \<^verbatim>\<open>errno\<close> holds when \<^verbatim>\<open>strtoul\<close> is
  called: earlier library calls leave it, and the source does not reset it.
\<close>

record libs =
  Py_DecodeLocale :: "string \<Rightarrow> wstring option"
  PyConfig_SetArgv :: pystatus
  Py_InitializeFromConfig :: pystatus
  Py_Initialize_ok :: bool
  PySys_GetObject :: "string \<Rightarrow> pyobj option"
  PyUnicode_AsWideChar :: "pyobj \<Rightarrow> wstring option"
  PyEval_SaveThread :: nat
  errno_before_strtoul :: nat
  PyImport_ImportModule :: "string \<Rightarrow> pyobj option"
  PyObject_CallMethod :: "pyobj \<Rightarrow> string \<Rightarrow> pyobj option"
  PyArg_ParseTuple :: "pyobj \<Rightarrow> (pyobj \<times> pyobj) option"
  PyObject_GetAttrString :: "pyobj \<Rightarrow> string \<Rightarrow> pyobj option"
  PyList_New :: "int \<Rightarrow> pyobj option"
  PyUnicode_DecodeLocale :: "string \<Rightarrow> string \<Rightarrow> unicode option"
  PyObject_CallFunctionObjArgs :: "pyobj \<Rightarrow> unicode option list \<Rightarrow> pyobj option"
  PyObject_CallFunction :: "pyobj \<Rightarrow> string \<Rightarrow> pyobj option"

text \<open>What the build fixes: \<^verbatim>\<open>PATH_MAX\<close> and \<^verbatim>\<open>PY_VERSION_HEX\<close>.\<close>

record platform =
  PATH_MAX :: nat
  PY_VERSION_HEX :: nat

text \<open>The environment, as \<^verbatim>\<open>getenv\<close> reads it.\<close>

type_synonym environ = "string \<Rightarrow> string option"

text \<open>A process-terminating failure: a failed \<^verbatim>\<open>assert\<close>, or a call into the
  runtime that does not return because the runtime ends the process
  (\<^verbatim>\<open>Py_Initialize\<close> failing, \<^verbatim>\<open>PyGILState_Ensure\<close> without an initialised
  runtime).\<close>

datatype fatal = Assertion_failed string | Py_FatalError

subsection \<open>The primitives\<close>

definition emit :: "effect \<Rightarrow> bridge \<Rightarrow> bridge" where
  "emit e s = s\<lparr>trace := trace s @ [e]\<rparr>"

text \<open>The effects a later state adds to an earlier one.\<close>

definition emitted :: "bridge \<Rightarrow> bridge \<Rightarrow> effect list" where
  "emitted s s' = drop (length (trace s)) (trace s')"

text \<open>
  Modelled from the spec: the macros \<^verbatim>\<open>to_python\<close> and \<^verbatim>\<open>to_simulator\<close> of
  cocotb_utils.h, which is not among the sources. The spec's broker transfers the
  execution token: acquiring installs the interpreter as its holder, releasing yields
  it back to the host.
\<close>

definition to_python :: "bridge \<Rightarrow> bridge" where
  "to_python s = emit To_python (s\<lparr>token := Interpreter\<rparr>)"

definition to_simulator :: "bridge \<Rightarrow> bridge" where
  "to_simulator s = emit To_simulator (s\<lparr>token := Host\<rparr>)"

text \<open>
  \<^verbatim>\<open>PyGILState_Ensure\<close> needs an initialised runtime. \<open>PyGILState_Ensure\<close> is the
  state after the call where the call returns. \<open>PyGILState_Ensure_call\<close> is the
  call with both outcomes: on a runtime that is not initialised (never booted, or
  finalised by \<^verbatim>\<open>Py_Finalize\<close>) it does not return and the process ends.
  Cleanup calls it under \<^verbatim>\<open>Py_IsInitialized()\<close> (line 245) and notify under a bound
  \<^verbatim>\<open>pEventFn\<close> (line 367); start calls it with no such check (line 264).
\<close>

definition PyGILState_Ensure :: "bridge \<Rightarrow> bridge" where
  "PyGILState_Ensure s = emit GILState_Ensure s"

definition PyGILState_Ensure_call :: "bridge \<Rightarrow> fatal + bridge" where
  "PyGILState_Ensure_call s =
     (if py_initialized s then Inr (PyGILState_Ensure s) else Inl Py_FatalError)"

definition PyGILState_Release :: "bridge \<Rightarrow> bridge" where
  "PyGILState_Release s = emit GILState_Release s"

definition PyErr_Print :: "bridge \<Rightarrow> bridge" where
  "PyErr_Print s = emit ErrPrint s"

definition Py_DECREF :: "pyobj \<Rightarrow> bridge \<Rightarrow> bridge" where
  "Py_DECREF ob s = emit (DecRef ob) s"

text \<open>\<^verbatim>\<open>Py_DecRef\<close> and \<^verbatim>\<open>Py_XDECREF\<close> do nothing on \<^verbatim>\<open>NULL\<close>.\<close>

definition Py_DecRef :: "pyobj option \<Rightarrow> bridge \<Rightarrow> bridge" where
  "Py_DecRef ob s = (case ob of None \<Rightarrow> s | Some x \<Rightarrow> Py_DECREF x s)"

definition py_gpi_logger_initialize :: "pyobj \<Rightarrow> pyobj \<Rightarrow> bridge \<Rightarrow> bridge" where
  "py_gpi_logger_initialize handler filter_fn s = emit (Logger_initialize handler filter_fn) s"

definition py_gpi_logger_finalize :: "bridge \<Rightarrow> bridge" where
  "py_gpi_logger_finalize s = emit Logger_finalize s"

text \<open>After \<^verbatim>\<open>Py_Finalize\<close>, \<^verbatim>\<open>Py_IsInitialized()\<close> answers false.\<close>

definition Py_Finalize :: "bridge \<Rightarrow> bridge" where
  "Py_Finalize s = emit Finalize (s\<lparr>py_initialized := False\<rparr>)"

subsection \<open>Cleanup (lines 241 to 254)\<close>

definition embed_sim_cleanup :: "bridge \<Rightarrow> bridge" where
  "embed_sim_cleanup s =
     (if py_initialized s then
        let s1 = to_python s;
            s2 = PyGILState_Ensure s1;
            s3 = Py_DecRef (pEventFn s2) s2;
            s4 = s3\<lparr>pEventFn := None\<rparr>;
            s5 = py_gpi_logger_finalize s4;
            s6 = Py_Finalize s5
        in to_simulator s6
      else s)"

subsection \<open>Event forwarding (lines 364 to 385)\<close>

definition embed_sim_event :: "libs \<Rightarrow> string option \<Rightarrow> bridge \<Rightarrow> bridge" where
  "embed_sim_event py msg s =
     (case pEventFn s of
        None \<Rightarrow> s
      | Some fn \<Rightarrow>
          let s1 = to_python s;
              s2 = PyGILState_Ensure s1;
              msg' = (case msg of None \<Rightarrow> ''No message provided'' | Some m \<Rightarrow> m);
              s3 = emit (Call_event fn msg') s2;
              pValue = PyObject_CallFunction py fn msg';
              s4 = (case pValue of
                      None \<Rightarrow> emit (Log GPIError ''Passing event to upper layer failed'')
                                (PyErr_Print s3)
                    | Some _ \<Rightarrow> s3);
              s5 = Py_DecRef pValue s4;
              s6 = PyGILState_Release s5
          in to_simulator s6)"

subsection \<open>Start (lines 256 to 362)\<close>

text \<open>
  A \<^verbatim>\<open>DEFER\<close> runs its statement when the enclosing scope is left, the latest
  first. Each function below is the rest of the body from one \<^verbatim>\<open>DEFER\<close> on: its caller
  runs the deferred statement on whatever it returns. The result is the returned
  \<^verbatim>\<open>int\<close> and the state.
\<close>

text \<open>
  The loop of lines 337 to 348, from index \<open>i\<close> with \<open>n\<close> iterations left.
  \<^verbatim>\<open>PyList_SetItem\<close> stores the item in slot \<open>i\<close>. A failed decoding returns
  \<^verbatim>\<open>-1\<close> from inside the loop: the result is \<open>None\<close>.
\<close>

fun argv_loop ::
  "libs \<Rightarrow> (nat \<Rightarrow> string) \<Rightarrow> nat \<Rightarrow> nat \<Rightarrow> unicode option list \<Rightarrow> bridge
    \<Rightarrow> unicode option list option \<times> bridge" where
  "argv_loop py argv i 0 items s = (Some items, s)"
| "argv_loop py argv i (Suc n) items s =
     (let s1 = emit (DecodeLocale (argv i) ''surrogateescape'') s
      in case PyUnicode_DecodeLocale py (argv i) ''surrogateescape'' of
           None \<Rightarrow> (None, PyErr_Print s1)
         | Some argv_item \<Rightarrow> argv_loop py argv (Suc i) n (items[i := Some argv_item]) s1)"

text \<open>
  Lines 329 to 361. \<^verbatim>\<open>PyList_New\<close> of a negative length fails; the new list has
  \<open>argc\<close> slots, all \<^verbatim>\<open>NULL\<close>. The array \<^verbatim>\<open>_argv\<close> is a function of the index: the
  host provides \<open>argc\<close> entries.
\<close>

definition sim_init_invoke ::
  "libs \<Rightarrow> int \<Rightarrow> (nat \<Rightarrow> string) \<Rightarrow> pyobj \<Rightarrow> bridge \<Rightarrow> int \<times> bridge" where
  "sim_init_invoke py argc argv entry_point s =
     (let s1 = emit (List_New argc) s
      in case (if argc < 0 then None else PyList_New py argc) of
           None \<Rightarrow> (- 1, PyErr_Print s1)
         | Some argv_list \<Rightarrow>
             (case argv_loop py argv 0 (nat argc) (replicate (nat argc) None) s1 of
                (None, s2) \<Rightarrow> (- 1, s2)
              | (Some items, s2) \<Rightarrow>
                  let s3 = emit (Call_entry entry_point items) s2;
                      (r, s4) =
                        (case PyObject_CallFunctionObjArgs py entry_point items of
                           None \<Rightarrow> (- 1, PyErr_Print s3)
                         | Some cocotb_retval \<Rightarrow> (0, Py_DECREF cocotb_retval s3))
                  in (r, Py_DECREF argv_list s4)))"

text \<open>Lines 318 to 327, then the invocation.\<close>

definition sim_init_event ::
  "libs \<Rightarrow> int \<Rightarrow> (nat \<Rightarrow> string) \<Rightarrow> pyobj \<Rightarrow> pyobj \<Rightarrow> pyobj \<Rightarrow> pyobj \<Rightarrow> bridge
    \<Rightarrow> int \<times> bridge" where
  "sim_init_event py argc argv entry_module entry_point log_func filter_func s =
     (let s1 = py_gpi_logger_initialize log_func filter_func s;
          s2 = emit (GetAttrString entry_module ''_sim_event'') s1;
          s3 = s2\<lparr>pEventFn := PyObject_GetAttrString py entry_module ''_sim_event''\<rparr>
      in case pEventFn s3 of
           None \<Rightarrow> (- 1, PyErr_Print s3)
         | Some _ \<Rightarrow> sim_init_invoke py argc argv entry_point s3)"

text \<open>Lines 309 to 316.\<close>

definition sim_init_filter ::
  "libs \<Rightarrow> int \<Rightarrow> (nat \<Rightarrow> string) \<Rightarrow> pyobj \<Rightarrow> pyobj \<Rightarrow> pyobj \<Rightarrow> bridge \<Rightarrow> int \<times> bridge" where
  "sim_init_filter py argc argv entry_module entry_point log_func s =
     (let s1 = emit (GetAttrString entry_module ''_filter_from_c'') s
      in case PyObject_GetAttrString py entry_module ''_filter_from_c'' of
           None \<Rightarrow> (- 1, PyErr_Print s1)
         | Some filter_func \<Rightarrow>
             let (r, s2) = sim_init_event py argc argv entry_module entry_point
                             log_func filter_func s1
             in (r, Py_DECREF filter_func s2))"

text \<open>Lines 300 to 307.\<close>

definition sim_init_log ::
  "libs \<Rightarrow> int \<Rightarrow> (nat \<Rightarrow> string) \<Rightarrow> pyobj \<Rightarrow> pyobj \<Rightarrow> bridge \<Rightarrow> int \<times> bridge" where
  "sim_init_log py argc argv entry_module entry_point s =
     (let s1 = emit (GetAttrString entry_module ''_log_from_c'') s
      in case PyObject_GetAttrString py entry_module ''_log_from_c'' of
           None \<Rightarrow> (- 1, PyErr_Print s1)
         | Some log_func \<Rightarrow>
             let (r, s2) = sim_init_filter py argc argv entry_module entry_point log_func s1
             in (r, Py_DECREF log_func s2))"

text \<open>Lines 279 to 298: the call of \<^verbatim>\<open>load_entry\<close>, and the tuple taken apart
  (its two objects are borrowed).\<close>

definition sim_init_load ::
  "libs \<Rightarrow> int \<Rightarrow> (nat \<Rightarrow> string) \<Rightarrow> pyobj \<Rightarrow> bridge \<Rightarrow> int \<times> bridge" where
  "sim_init_load py argc argv entry_utility_module s =
     (let s1 = emit (CallMethod entry_utility_module ''load_entry'') s
      in case PyObject_CallMethod py entry_utility_module ''load_entry'' of
           None \<Rightarrow> (- 1, PyErr_Print s1)
         | Some entry_info_tuple \<Rightarrow>
             let (r, s2) =
                   (case PyArg_ParseTuple py entry_info_tuple of
                      None \<Rightarrow> (- 1, PyErr_Print s1)
                    | Some (entry_module, entry_point) \<Rightarrow>
                        sim_init_log py argc argv entry_module entry_point s1)
             in (r, Py_DECREF entry_info_tuple s2))"

text \<open>Lines 270 to 277.\<close>

definition sim_init_import ::
  "libs \<Rightarrow> int \<Rightarrow> (nat \<Rightarrow> string) \<Rightarrow> bridge \<Rightarrow> int \<times> bridge" where
  "sim_init_import py argc argv s =
     (let s1 = emit (ImportModule ''pygpi.entry'') s
      in case PyImport_ImportModule py ''pygpi.entry'' of
           None \<Rightarrow> (- 1, PyErr_Print s1)
         | Some entry_utility_module \<Rightarrow>
             let (r, s2) = sim_init_load py argc argv entry_utility_module s1
             in (r, Py_DECREF entry_utility_module s2))"

text \<open>Lines 256 to 268: the guard, then the two acquisitions with their deferred
  releases.\<close>

definition embed_sim_init ::
  "libs \<Rightarrow> int \<Rightarrow> (nat \<Rightarrow> string) \<Rightarrow> bridge \<Rightarrow> int \<times> bridge" where
  "embed_sim_init py argc argv s =
     (case pEventFn s of
        Some _ \<Rightarrow> (0, s)
      | None \<Rightarrow>
          let s1 = PyGILState_Ensure s;
              s2 = to_python s1;
              (r, s3) = sim_init_import py argc argv s2
          in (r, PyGILState_Release (to_simulator s3)))"


subsection \<open>Boot (lines 74 to 226)\<close>

text \<open>
  \<^verbatim>\<open>get_interpreter_path\<close>: \<open>None\<close> is the return value \<^verbatim>\<open>-1\<close>, \<open>Some path\<close> the
  return value \<^verbatim>\<open>0\<close> with the buffer's content. The buffer holds
  \<^verbatim>\<open>PATH_MAX\<close> wide characters; \<^verbatim>\<open>wcsncpy\<close> pads a shorter string with zeros, so
  the last one is not zero exactly when the decoded path has \<^verbatim>\<open>PATH_MAX\<close> characters
  or more.
\<close>

definition get_interpreter_path ::
  "platform \<Rightarrow> environ \<Rightarrow> libs \<Rightarrow> bridge \<Rightarrow> wstring option \<times> bridge" where
  "get_interpreter_path pf env py s =
     (case env ''PYTHON_BIN'' of
        None \<Rightarrow>
          (None, emit (Log GPIInfo
             ''Did not detect Python virtual environment. Using system-wide Python interpreter'') s)
      | Some path_c \<Rightarrow>
          (case Py_DecodeLocale py path_c of
             None \<Rightarrow>
               (None, emit (Log GPIInfo ''Python executable path: %s'')
                  (emit (Log GPIError
                     ''Unable to set Python Program Name. Decoding error in Python executable path.'') s))
           | Some path_temp \<Rightarrow>
               if PATH_MAX pf \<le> length path_temp then
                 (None, emit (Log GPIInfo ''Python executable path: %s'')
                    (emit (Log GPIError
                       ''Unable to set Python Program Name. Path to interpreter too long'') s))
               else (Some path_temp, s)))"

text \<open>Lines 118 to 130.\<close>

definition logStrToLevel :: "(string \<times> gpi_log_level) list" where
  "logStrToLevel =
     [(''CRITICAL'', GPICritical), (''ERROR'', GPIError), (''WARNING'', GPIWarning),
      (''INFO'', GPIInfo), (''DEBUG'', GPIDebug), (''TRACE'', GPITrace)]"

definition set_log_level :: "environ \<Rightarrow> bridge \<Rightarrow> bridge" where
  "set_log_level env s =
     (case env ''COCOTB_LOG_LEVEL'' of
        None \<Rightarrow> s
      | Some log_level \<Rightarrow>
          (case map_of logStrToLevel log_level of
             Some lvl \<Rightarrow> emit (Logger_set_level lvl) s
           | None \<Rightarrow> emit (Log GPIError ''Invalid log level: %s'') s))"

text \<open>The two optional lines that report a \<^verbatim>\<open>PyStatus\<close>.\<close>

definition log_status :: "pystatus \<Rightarrow> bridge \<Rightarrow> bridge" where
  "log_status status s =
     (let s1 = (case err_msg status of
                  None \<Rightarrow> s
                | Some _ \<Rightarrow> emit (Log GPIError (CHR 0x09 # ''error: %s'')) s)
      in case func status of
           None \<Rightarrow> s1
         | Some _ \<Rightarrow> emit (Log GPIError (CHR 0x09 # ''function: %s'')) s1)"

text \<open>
  Lines 144 to 184: the initialisation, by the API the build selects. The flag says
  whether the body goes on (\<open>False\<close>: it returned). \<open>Initialize\<close> records the call;
  the runtime is initialised when the call succeeds. \<^verbatim>\<open>Py_Initialize\<close> of the old API
  does not return when it fails.
\<close>

definition initialize_runtime ::
  "platform \<Rightarrow> libs \<Rightarrow> wstring \<Rightarrow> bridge \<Rightarrow> fatal + bool \<times> bridge" where
  "initialize_runtime pf py interpreter_path s =
     (if 0x3080000 \<le> PY_VERSION_HEX pf then
        (if exception (PyConfig_SetArgv py) then
           Inr (False, log_status (PyConfig_SetArgv py)
                  (emit (Log GPIError ''Failed to set ARGV during the Python initialization'') s))
         else
           let s1 = emit (Initialize interpreter_path) s
           in if exception (Py_InitializeFromConfig py) then
                Inr (False, log_status (Py_InitializeFromConfig py)
                       (emit (Log GPIError ''Failed to initialize Python'') s1))
              else Inr (True, s1\<lparr>py_initialized := True\<rparr>))
      else
        (let s1 = emit (Initialize interpreter_path) s
         in if Py_Initialize_ok py then Inr (True, s1\<lparr>py_initialized := True\<rparr>)
            else Inl Py_FatalError))"

text \<open>Lines 186 to 197: the check of \<^verbatim>\<open>sys.executable\<close>, which only logs.\<close>

definition check_sys_executable :: "libs \<Rightarrow> wstring \<Rightarrow> bridge \<Rightarrow> bridge" where
  "check_sys_executable py interpreter_path s =
     (case PySys_GetObject py ''executable'' of
        None \<Rightarrow> emit (Log GPIError ''Failed to load sys.executable'') s
      | Some sys_executable_obj \<Rightarrow>
          (case PyUnicode_AsWideChar py sys_executable_obj of
             None \<Rightarrow> emit (Log GPIError ''Failed to convert sys.executable to wide string'') s
           | Some sys_executable \<Rightarrow>
               if interpreter_path \<noteq> sys_executable then
                 emit (Log GPIError
                   (''Unexpected sys.executable value (expected '' @ [CHR 0x27] @ ''%ls''
                      @ [CHR 0x27] @ '', got '' @ [CHR 0x27] @ ''%ls'' @ [CHR 0x27] @ '')'')) s
               else s))"

text \<open>
  The C library's \<^verbatim>\<open>strtoul(nptr, NULL, 10)\<close> for a 64-bit \<^verbatim>\<open>unsigned long\<close>:
  white space is skipped, one sign is read, then the decimal digits. With no digit
  the result is 0 (a library that also sets \<^verbatim>\<open>errno\<close> to \<^verbatim>\<open>EINVAL\<close> then takes
  the same branch of the caller, which tests the value 0). A value above \<^verbatim>\<open>ULONG_MAX\<close> gives \<^verbatim>\<open>ULONG_MAX\<close> and sets
  \<^verbatim>\<open>errno\<close> to \<^verbatim>\<open>ERANGE\<close>; otherwise \<^verbatim>\<open>errno\<close> keeps the value it had, and a
  minus sign negates the result in the unsigned type. The result is the value and
  \<^verbatim>\<open>errno\<close> after the call.
\<close>

definition ERANGE :: nat where
  "ERANGE = 34"

definition UINT_MAX :: nat where
  "UINT_MAX = 4294967295"

definition ULONG_MAX :: nat where
  "ULONG_MAX = 18446744073709551615"

definition isspace :: "char \<Rightarrow> bool" where
  "isspace c = (of_char c \<in> {32::nat, 9, 10, 11, 12, 13})"

definition isdigit :: "char \<Rightarrow> bool" where
  "isdigit c = (48 \<le> (of_char c :: nat) \<and> (of_char c :: nat) \<le> 57)"

definition digits_value :: "string \<Rightarrow> nat" where
  "digits_value ds = foldl (\<lambda>a c. 10 * a + (of_char c - 48)) 0 ds"

text \<open>The subject of the conversion: whether a minus sign was read, and what
  follows the white space and the sign.\<close>

definition strtoul_subject :: "string \<Rightarrow> bool \<times> string" where
  "strtoul_subject nptr =
     (case dropWhile isspace nptr of
        [] \<Rightarrow> (False, [])
      | c # cs \<Rightarrow>
          if c = CHR ''-'' then (True, cs)
          else if c = CHR ''+'' then (False, cs)
          else (False, c # cs))"

definition strtoul :: "string \<Rightarrow> nat \<Rightarrow> 64 word \<times> nat" where
  "strtoul nptr errno =
     (let (negative, s2) = strtoul_subject nptr;
          ds = takeWhile isdigit s2;
          v = digits_value ds
      in if ds = [] then (0, errno)
         else if ULONG_MAX < v then (word_of_nat ULONG_MAX, ERANGE)
         else (if negative then - word_of_nat v else word_of_nat v, errno))"

text \<open>
  Lines 205 to 225: the wait for a debugger. \<^verbatim>\<open>errno\<close> is read as the earlier
  calls and \<^verbatim>\<open>strtoul\<close> left it. \<^verbatim>\<open>sleep\<close> is the POSIX one, called with the
  value narrowed to \<^verbatim>\<open>unsigned int\<close>.
\<close>

definition attach_wait :: "environ \<Rightarrow> libs \<Rightarrow> bridge \<Rightarrow> bridge" where
  "attach_wait env py s =
     (case env ''COCOTB_ATTACH'' of
        None \<Rightarrow> s
      | Some pause \<Rightarrow>
          let (sleep_time, errno) = strtoul pause (errno_before_strtoul py)
          in if errno = ERANGE \<or> UINT_MAX \<le> unat sleep_time then
               emit (Log GPIError ''COCOTB_ATTACH only needs to be set to ~30 seconds'') s
             else if (errno \<noteq> 0 \<and> sleep_time = 0) \<or> sleep_time \<le> 0 then
               emit (Log GPIError
                 ''COCOTB_ATTACH must be set to an integer base 10 or omitted'') s
             else
               emit (Sleep (unat (ucast sleep_time :: 32 word)))
                 (emit (Log GPIError
                    ''Waiting for %lu seconds - attach to PID %d with your debugger'') s))"

text \<open>Lines 199 to 201.\<close>

definition save_thread :: "libs \<Rightarrow> bridge \<Rightarrow> bridge" where
  "save_thread py s = emit SaveThread (s\<lparr>gtstate := Some (PyEval_SaveThread py)\<rparr>)"

text \<open>\<^verbatim>\<open>_embed_init_python\<close>. The failed assertion terminates the process.\<close>

definition embed_init_python :: "platform \<Rightarrow> environ \<Rightarrow> libs \<Rightarrow> bridge \<Rightarrow> fatal + bridge" where
  "embed_init_python pf env py s =
     (case gtstate s of
        Some _ \<Rightarrow> Inl (Assertion_failed ''!gtstate'')
      | None \<Rightarrow>
          let s1 = set_log_level env s;
              s2 = to_python s1
          in case get_interpreter_path pf env py s2 of
               (None, s3) \<Rightarrow> Inr s3
             | (Some interpreter_path, s3) \<Rightarrow>
                 let s4 = emit (Log GPIInfo ''Using Python interpreter at %ls'') s3
                 in case initialize_runtime pf py interpreter_path s4 of
                      Inl f \<Rightarrow> Inl f
                    | Inr (False, s5) \<Rightarrow> Inr s5
                    | Inr (True, s5) \<Rightarrow>
                        let s6 = check_sys_executable py interpreter_path s5;
                            s7 = save_thread py s6;
                            s8 = to_simulator s7
                        in Inr (attach_wait env py s8))"

subsection \<open>The loop as functions of its inputs\<close>

text \<open>
  The loop only appends to the trace, and neither its result nor what it appends
  depends on the state: \<open>argv_items\<close> is the list it returns and \<open>argv_effects\<close>
  what it appends (lemma \<open>argv_loop_eq\<close>).
\<close>

fun argv_effects :: "libs \<Rightarrow> (nat \<Rightarrow> string) \<Rightarrow> nat \<Rightarrow> nat \<Rightarrow> effect list" where
  "argv_effects py argv i 0 = []"
| "argv_effects py argv i (Suc n) =
     DecodeLocale (argv i) ''surrogateescape'' #
       (case PyUnicode_DecodeLocale py (argv i) ''surrogateescape'' of
          None \<Rightarrow> [ErrPrint]
        | Some _ \<Rightarrow> argv_effects py argv (Suc i) n)"

fun argv_items ::
  "libs \<Rightarrow> (nat \<Rightarrow> string) \<Rightarrow> nat \<Rightarrow> nat \<Rightarrow> unicode option list \<Rightarrow> unicode option list option" where
  "argv_items py argv i 0 items = Some items"
| "argv_items py argv i (Suc n) items =
     (case PyUnicode_DecodeLocale py (argv i) ''surrogateescape'' of
        None \<Rightarrow> None
      | Some argv_item \<Rightarrow> argv_items py argv (Suc i) n (items[i := Some argv_item]))"

subsection \<open>Reading a trace\<close>

text \<open>The calls of an event hook in a trace, with the text each one passes.\<close>

fun hook_calls :: "effect list \<Rightarrow> (pyobj \<times> string) list" where
  "hook_calls [] = []"
| "hook_calls (Call_event fn m # es) = (fn, m) # hook_calls es"
| "hook_calls (e # es) = hook_calls es"

text \<open>The durations of the sleeps in a trace.\<close>

fun sleeps :: "effect list \<Rightarrow> nat list" where
  "sleeps [] = []"
| "sleeps (Sleep n # es) = n # sleeps es"
| "sleeps (e # es) = sleeps es"

subsection \<open>Concrete executions\<close>

text \<open>
  The state at process start (the initialisers of lines 57 and 72, no runtime, the
  host executing), and library answers for an execution in which every call
  succeeds. \<open>escape_decode\<close> is the decoding of the C locale: an ASCII byte is its
  code point; with the handler \<^verbatim>\<open>surrogateescape\<close> a byte from 128 on becomes the
  lone surrogate U+DC00 plus the byte, with any other handler it is an error.
  \<open>escape_encode\<close> is the encoding with the same handler.
\<close>

definition fresh :: bridge where
  "fresh = \<lparr>gtstate = None, pEventFn = None, py_initialized = False, token = Host, trace = []\<rparr>"

definition ok_status :: pystatus where
  "ok_status = \<lparr>exception = False, err_msg = None, func = None\<rparr>"

definition escape_decode :: "string \<Rightarrow> string \<Rightarrow> unicode option" where
  "escape_decode bytes errors =
     (if errors = ''surrogateescape'' then
        Some (map (\<lambda>c. if (of_char c :: nat) < 128 then of_char c else 0xDC00 + of_char c) bytes)
      else if list_all (\<lambda>c. (of_char c :: nat) < 128) bytes then Some (map of_char bytes)
      else None)"

definition escape_encode :: "unicode \<Rightarrow> string" where
  "escape_encode u = map (\<lambda>n. char_of (if 0xDC80 \<le> n then n - 0xDC00 else n)) u"

definition good_libs :: libs where
  "good_libs =
     \<lparr>Py_DecodeLocale = (\<lambda>b. Some (map of_char b)),
      PyConfig_SetArgv = ok_status,
      Py_InitializeFromConfig = ok_status,
      Py_Initialize_ok = True,
      PySys_GetObject = (\<lambda>n. if n = ''executable'' then Some 7 else None),
      PyUnicode_AsWideChar = (\<lambda>ob. Some (map of_char ''/venv/bin/python'')),
      PyEval_SaveThread = 1,
      errno_before_strtoul = 0,
      PyImport_ImportModule = (\<lambda>n. if n = ''pygpi.entry'' then Some 10 else None),
      PyObject_CallMethod = (\<lambda>ob n. if ob = 10 \<and> n = ''load_entry'' then Some 11 else None),
      PyArg_ParseTuple = (\<lambda>ob. if ob = 11 then Some (12, 13) else None),
      PyObject_GetAttrString = (\<lambda>ob n. if ob = 12 then
         map_of [(''_log_from_c'', 14), (''_filter_from_c'', 15), (''_sim_event'', 16)] n else None),
      PyList_New = (\<lambda>n. Some 17),
      PyUnicode_DecodeLocale = escape_decode,
      PyObject_CallFunctionObjArgs = (\<lambda>f args. if f = 13 then Some 18 else None),
      PyObject_CallFunction = (\<lambda>f m. if f = 16 then Some 19 else None)\<rparr>"

definition linux :: platform where
  "linux = \<lparr>PATH_MAX = 4096, PY_VERSION_HEX = 0x30B00F0\<rparr>"

definition venv :: environ where
  "venv = map_of [(''PYTHON_BIN'', ''/venv/bin/python'')]"

definition host_argv :: "nat \<Rightarrow> string" where
  "host_argv i = (if i = 0 then ''testbench'' else [CHR 0xFF, CHR ''a''])"

text \<open>
  The state \<open>booted\<close> is what a boot from \<open>fresh\<close> returns in that execution (lemma
  \<open>boot_fresh\<close>), and \<open>started\<close> the state after a start from there. The other
  library answers differ from \<open>good_libs\<close> in one call: the attribute
  \<^verbatim>\<open>_sim_event\<close> is missing, or the call of the entry point fails.
\<close>

definition booted :: bridge where
  "booted = \<lparr>gtstate = Some 1, pEventFn = None, py_initialized = True, token = Host,
     trace = [To_python, Log GPIInfo ''Using Python interpreter at %ls'',
              Initialize (map of_char ''/venv/bin/python''), SaveThread, To_simulator]\<rparr>"

definition no_event_hook :: libs where
  "no_event_hook = good_libs\<lparr>PyObject_GetAttrString :=
     (\<lambda>ob n. if n = ''_sim_event'' then None else PyObject_GetAttrString good_libs ob n)\<rparr>"

definition no_log_hook :: libs where
  "no_log_hook = good_libs\<lparr>PyObject_GetAttrString :=
     (\<lambda>ob n. if n = ''_log_from_c'' then None else PyObject_GetAttrString good_libs ob n)\<rparr>"

definition failing_entry :: libs where
  "failing_entry = good_libs\<lparr>PyObject_CallFunctionObjArgs := (\<lambda>f args. None)\<rparr>"

definition started :: bridge where
  "started = snd (embed_sim_init good_libs 2 host_argv booted)"

text \<open>Library answers with a failing initialisation, and the state a boot from
  \<open>fresh\<close> returns with them.\<close>

definition failing_init :: libs where
  "failing_init = good_libs\<lparr>Py_InitializeFromConfig :=
     \<lparr>exception = True, err_msg = Some ''out of memory'', func = None\<rparr>\<rparr>"

definition boot_failed :: bridge where
  "boot_failed = \<lparr>gtstate = None, pEventFn = None, py_initialized = False, token = Interpreter,
     trace = [To_python, Log GPIInfo ''Using Python interpreter at %ls'',
              Initialize (map of_char ''/venv/bin/python''),
              Log GPIError ''Failed to initialize Python'',
              Log GPIError (CHR 0x09 # ''error: %s'')]\<rparr>"

section \<open>Properties\<close>

subsection \<open>Unfolding\<close>

lemmas prims = emit_def to_python_def to_simulator_def PyGILState_Ensure_def PyGILState_Release_def
  PyErr_Print_def Py_DECREF_def Py_DecRef_def py_gpi_logger_initialize_def py_gpi_logger_finalize_def
  Py_Finalize_def

lemmas boot_defs = embed_init_python_def set_log_level_def get_interpreter_path_def
  initialize_runtime_def check_sys_executable_def save_thread_def attach_wait_def log_status_def

lemmas body_defs = sim_init_import_def sim_init_load_def sim_init_log_def
  sim_init_filter_def sim_init_event_def sim_init_invoke_def

lemma emitted_append [simp]: "trace s' = trace s @ es \<Longrightarrow> emitted s s' = es"
  by (simp add: emitted_def)

lemma emitted_self [simp]: "emitted s s = []"
  by (simp add: emitted_def)

subsection \<open>The argument loop\<close>

lemma argv_loop_eq:
  "argv_loop py argv i n items s =
     (argv_items py argv i n items, s\<lparr>trace := trace s @ argv_effects py argv i n\<rparr>)"
  by (induction n arbitrary: i items s) (simp_all add: prims split: option.splits)

lemma argv_effects_kind:
  "e \<in> set (argv_effects py argv i n) \<Longrightarrow> e = ErrPrint \<or> (\<exists>b. e = DecodeLocale b ''surrogateescape'')"
  by (induction n arbitrary: i) (auto split: option.splits)

lemma argv_items_length:
  "argv_items py argv i n items = Some items' \<Longrightarrow> length items' = length items"
  by (induction n arbitrary: i items) (auto split: option.splits)

lemma argv_items_nth:
  "argv_items py argv i n items = Some items' \<Longrightarrow> i + n \<le> length items \<Longrightarrow> k < length items \<Longrightarrow>
     items' ! k = (if i \<le> k \<and> k < i + n then PyUnicode_DecodeLocale py (argv k) ''surrogateescape''
                   else items ! k)
     \<and> (i \<le> k \<and> k < i + n \<longrightarrow> PyUnicode_DecodeLocale py (argv k) ''surrogateescape'' \<noteq> None)"
proof (induction n arbitrary: i items)
  case 0
  then show ?case by auto
next
  case (Suc n)
  from Suc.prems(1) obtain u where
    u: "PyUnicode_DecodeLocale py (argv i) ''surrogateescape'' = Some u" and
    rest: "argv_items py argv (Suc i) n (items[i := Some u]) = Some items'"
    by (auto split: option.splits)
  have "Suc i + n \<le> length (items[i := Some u])" "k < length (items[i := Some u])"
    using Suc.prems by simp_all
  from Suc.IH [OF rest this] show ?case
    using u Suc.prems by (cases "k = i") (auto simp: nth_list_update)
qed

lemma argv_items_all:
  assumes "argv_items py argv 0 n (replicate n None) = Some items"
  shows "items = map (\<lambda>k. PyUnicode_DecodeLocale py (argv k) ''surrogateescape'') [0..<n]"
    and "None \<notin> set items"
proof -
  have len: "length items = n"
    using argv_items_length [OF assms] by simp
  have nth: "items ! k = PyUnicode_DecodeLocale py (argv k) ''surrogateescape''
      \<and> PyUnicode_DecodeLocale py (argv k) ''surrogateescape'' \<noteq> None" if "k < n" for k
    using argv_items_nth [OF assms, of k] that by simp
  show "items = map (\<lambda>k. PyUnicode_DecodeLocale py (argv k) ''surrogateescape'') [0..<n]"
    by (rule nth_equalityI) (simp_all add: len nth)
  show "None \<notin> set items"
    using nth len by (metis in_set_conv_nth)
qed

lemma argv_effects_no_call [simp]: "Call_entry ep items \<notin> set (argv_effects py argv i n)"
  using argv_effects_kind [of "Call_entry ep items" py argv i n] by auto

lemma argv_effects_no_init [simp]: "Logger_initialize l f \<notin> set (argv_effects py argv i n)"
  using argv_effects_kind [of "Logger_initialize l f" py argv i n] by auto

lemma argv_effects_handler:
  "DecodeLocale b h \<in> set (argv_effects py argv i n) \<Longrightarrow> h = ''surrogateescape''"
  using argv_effects_kind [of "DecodeLocale b h" py argv i n] by auto

lemma sim_init_import_frame:
  "gtstate (snd (sim_init_import py argc argv s)) = gtstate s
   \<and> py_initialized (snd (sim_init_import py argc argv s)) = py_initialized s
   \<and> token (snd (sim_init_import py argc argv s)) = token s
   \<and> (\<exists>mid. trace (snd (sim_init_import py argc argv s)) = trace s @ mid
         \<and> set mid \<inter> {To_python, To_simulator, GILState_Ensure, GILState_Release} = {})"
  by (auto simp: body_defs prims Let_def argv_loop_eq split: option.splits prod.splits
      dest: argv_effects_kind)

lemma body_entry_called:
  "\<exists>es. trace (snd (sim_init_import py argc argv s)) = trace s @ es
     \<and> (\<forall>b h. DecodeLocale b h \<in> set es \<longrightarrow> h = ''surrogateescape'')
     \<and> (Call_entry ep items \<in> set es \<longrightarrow>
          argv_items py argv 0 (nat argc) (replicate (nat argc) None) = Some items
          \<and> fst (sim_init_import py argc argv s) =
              (case PyObject_CallFunctionObjArgs py ep items of None \<Rightarrow> - 1 | Some _ \<Rightarrow> 0)
          \<and> (\<exists>em ev. PyObject_GetAttrString py em ''_sim_event'' = Some ev
                \<and> pEventFn (snd (sim_init_import py argc argv s)) = Some ev))"
  by (auto simp: body_defs prims Let_def argv_loop_eq split: option.splits prod.splits
      dest: argv_effects_handler)

text \<open>What start does past the guard, in terms of the body.\<close>

lemma start_unguarded:
  "pEventFn s = None \<Longrightarrow>
     fst (embed_sim_init py argc argv s)
       = fst (sim_init_import py argc argv (to_python (PyGILState_Ensure s)))
     \<and> snd (embed_sim_init py argc argv s)
       = PyGILState_Release (to_simulator
           (snd (sim_init_import py argc argv (to_python (PyGILState_Ensure s)))))"
  by (simp add: embed_sim_init_def Let_def split: prod.splits)

lemma start_guarded: "pEventFn s = Some fn \<Longrightarrow> embed_sim_init py argc argv s = (0, s)"
  by (simp add: embed_sim_init_def)

lemma entry_called:
  assumes "Call_entry ep items \<in> set (emitted s (snd (embed_sim_init py argc argv s)))"
  shows "pEventFn s = None"
    and "argv_items py argv 0 (nat argc) (replicate (nat argc) None) = Some items"
    and "fst (embed_sim_init py argc argv s) =
        (case PyObject_CallFunctionObjArgs py ep items of None \<Rightarrow> - 1 | Some _ \<Rightarrow> 0)"
    and "\<exists>em ev. PyObject_GetAttrString py em ''_sim_event'' = Some ev
           \<and> pEventFn (snd (embed_sim_init py argc argv s)) = Some ev"
proof -
  show guard: "pEventFn s = None"
  proof (cases "pEventFn s")
    case (Some fn)
    with assms show ?thesis by (simp add: start_guarded)
  qed simp
  let ?s2 = "to_python (PyGILState_Ensure s)"
  let ?b = "sim_init_import py argc argv ?s2"
  obtain es where es: "trace (snd ?b) = trace ?s2 @ es"
    and call: "Call_entry ep items \<in> set es \<longrightarrow>
          argv_items py argv 0 (nat argc) (replicate (nat argc) None) = Some items
          \<and> fst ?b = (case PyObject_CallFunctionObjArgs py ep items of None \<Rightarrow> - 1 | Some _ \<Rightarrow> 0)
          \<and> (\<exists>em ev. PyObject_GetAttrString py em ''_sim_event'' = Some ev
                \<and> pEventFn (snd ?b) = Some ev)"
    using body_entry_called [of py argc argv ?s2 ep items] by blast
  have "trace (snd (embed_sim_init py argc argv s))
      = trace s @ [GILState_Ensure, To_python] @ es @ [To_simulator, GILState_Release]"
    using es by (simp add: start_unguarded [OF guard] prims)
  then have "emitted s (snd (embed_sim_init py argc argv s))
      = [GILState_Ensure, To_python] @ es @ [To_simulator, GILState_Release]"
    by (rule emitted_append)
  with assms have "Call_entry ep items \<in> set es" by simp
  with call show "argv_items py argv 0 (nat argc) (replicate (nat argc) None) = Some items"
    and "fst (embed_sim_init py argc argv s) =
        (case PyObject_CallFunctionObjArgs py ep items of None \<Rightarrow> - 1 | Some _ \<Rightarrow> 0)"
    and "\<exists>em ev. PyObject_GetAttrString py em ''_sim_event'' = Some ev
           \<and> pEventFn (snd (embed_sim_init py argc argv s)) = Some ev"
    by (simp_all add: start_unguarded [OF guard] prims)
qed

lemma body_unresolved_early:
  assumes "pEventFn s = None" "PyImport_ImportModule py ''pygpi.entry'' = Some m"
    and "PyObject_CallMethod py m ''load_entry'' = None
        \<or> (PyObject_CallMethod py m ''load_entry'' = Some t \<and> PyArg_ParseTuple py t = None)
        \<or> (PyObject_CallMethod py m ''load_entry'' = Some t \<and> PyArg_ParseTuple py t = Some (em, ep)
            \<and> (PyObject_GetAttrString py em ''_log_from_c'' = None
               \<or> PyObject_GetAttrString py em ''_filter_from_c'' = None))"
  shows "fst (sim_init_import py argc argv s) = - 1
    \<and> pEventFn (snd (sim_init_import py argc argv s)) = None
    \<and> (\<exists>es. trace (snd (sim_init_import py argc argv s)) = trace s @ es
          \<and> (\<forall>l f. Logger_initialize l f \<notin> set es))"
  using assms
  by (auto simp: body_defs prims Let_def split: option.splits)

lemma body_unresolved_event:
  assumes "pEventFn s = None" "PyImport_ImportModule py ''pygpi.entry'' = Some m"
    and "PyObject_CallMethod py m ''load_entry'' = Some t" "PyArg_ParseTuple py t = Some (em, ep)"
    and "PyObject_GetAttrString py em ''_log_from_c'' = Some lf"
    and "PyObject_GetAttrString py em ''_filter_from_c'' = Some ff"
    and "PyObject_GetAttrString py em ''_sim_event'' = None"
  shows "fst (sim_init_import py argc argv s) = - 1
    \<and> pEventFn (snd (sim_init_import py argc argv s)) = None
    \<and> (\<exists>es. trace (snd (sim_init_import py argc argv s)) = trace s @ es
          \<and> Logger_initialize lf ff \<in> set es)"
  using assms
  by (simp add: body_defs prims Let_def)

subsection \<open>The concrete executions\<close>

lemmas fixture_defs = good_libs_def ok_status_def escape_decode_def host_argv_def linux_def venv_def

lemma argv_items_numeral:
  "argv_items py argv i (numeral k) items = argv_items py argv i (Suc (pred_numeral k)) items"
  by (simp add: numeral_eq_Suc)

lemma argv_effects_numeral:
  "argv_effects py argv i (numeral k) = argv_effects py argv i (Suc (pred_numeral k))"
  by (simp add: numeral_eq_Suc)

lemma replicate_numeral_unroll: "replicate (numeral k) x = x # replicate (pred_numeral k) x"
  by (simp add: numeral_eq_Suc)

lemmas run_defs = embed_sim_init_def body_defs prims Let_def argv_loop_eq argv_items_numeral
  argv_effects_numeral replicate_numeral_unroll fixture_defs

lemma boot_fresh: "embed_init_python linux venv good_libs fresh = Inr booted"
  by (simp add: boot_defs prims fresh_def booted_def fixture_defs)

lemma started_eq:
  "embed_sim_init good_libs 2 host_argv booted = (0, started) \<and>
   started = \<lparr>gtstate = Some 1, pEventFn = Some 16, py_initialized = True, token = Host,
     trace = trace booted @
       [GILState_Ensure, To_python, ImportModule ''pygpi.entry'', CallMethod 10 ''load_entry'',
        GetAttrString 12 ''_log_from_c'', GetAttrString 12 ''_filter_from_c'',
        Logger_initialize 14 15, GetAttrString 12 ''_sim_event'', List_New 2,
        DecodeLocale ''testbench'' ''surrogateescape'',
        DecodeLocale [CHR 0xFF, CHR ''a''] ''surrogateescape'',
        Call_entry 13 [Some [116, 101, 115, 116, 98, 101, 110, 99, 104], Some [56575, 97]],
        DecRef 18, DecRef 17, DecRef 15, DecRef 14, DecRef 11, DecRef 10,
        To_simulator, GILState_Release]\<rparr>"
  by (simp add: started_def booted_def run_defs)

lemma no_event_hook_run:
  "embed_sim_init no_event_hook 2 host_argv booted =
     (- 1, booted\<lparr>trace := trace booted @
       [GILState_Ensure, To_python, ImportModule ''pygpi.entry'', CallMethod 10 ''load_entry'',
        GetAttrString 12 ''_log_from_c'', GetAttrString 12 ''_filter_from_c'',
        Logger_initialize 14 15, GetAttrString 12 ''_sim_event'', ErrPrint,
        DecRef 15, DecRef 14, DecRef 11, DecRef 10, To_simulator, GILState_Release]\<rparr>)"
  by (simp add: no_event_hook_def booted_def run_defs)

lemma no_log_hook_run:
  "embed_sim_init no_log_hook 2 host_argv booted =
     (- 1, booted\<lparr>trace := trace booted @
       [GILState_Ensure, To_python, ImportModule ''pygpi.entry'', CallMethod 10 ''load_entry'',
        GetAttrString 12 ''_log_from_c'', ErrPrint,
        DecRef 11, DecRef 10, To_simulator, GILState_Release]\<rparr>)"
  by (simp add: no_log_hook_def booted_def run_defs)

lemma failing_entry_run:
  "embed_sim_init failing_entry 2 host_argv booted =
     (- 1, booted\<lparr>pEventFn := Some 16, trace := trace booted @
       [GILState_Ensure, To_python, ImportModule ''pygpi.entry'', CallMethod 10 ''load_entry'',
        GetAttrString 12 ''_log_from_c'', GetAttrString 12 ''_filter_from_c'',
        Logger_initialize 14 15, GetAttrString 12 ''_sim_event'', List_New 2,
        DecodeLocale ''testbench'' ''surrogateescape'',
        DecodeLocale [CHR 0xFF, CHR ''a''] ''surrogateescape'',
        Call_entry 13 [Some [116, 101, 115, 116, 98, 101, 110, 99, 104], Some [56575, 97]],
        ErrPrint, DecRef 17, DecRef 15, DecRef 14, DecRef 11, DecRef 10,
        To_simulator, GILState_Release]\<rparr>)"
  by (simp add: failing_entry_def booted_def run_defs)

subsection \<open>Start: a symbol that does not resolve\<close>

text \<open>
  C2, as amended. Let the entry module be imported and \<open>pEventFn\<close> be \<^verbatim>\<open>NULL\<close>.
  When the main entry (the call of \<^verbatim>\<open>load_entry\<close> or its tuple), the log hook or the
  filter hook does not resolve, start returns \<^verbatim>\<open>-1\<close>, \<open>pEventFn\<close> stays
  \<^verbatim>\<open>NULL\<close> and \<^verbatim>\<open>py_gpi_logger_initialize\<close> has not been called. When these
  three resolve and the event hook \<^verbatim>\<open>_sim_event\<close> does not, start returns \<^verbatim>\<open>-1\<close>
  and \<open>pEventFn\<close> stays \<^verbatim>\<open>NULL\<close>, but \<^verbatim>\<open>py_gpi_logger_initialize\<close> has been
  called with the log and the filter hook: line 318 registers them before line 320
  looks the event hook up.
\<close>

theorem start_unresolved_symbol:
  assumes "pEventFn s = None"
    and "PyImport_ImportModule py ''pygpi.entry'' = Some m"
  shows
    "(PyObject_CallMethod py m ''load_entry'' = None
        \<or> (PyObject_CallMethod py m ''load_entry'' = Some t \<and> PyArg_ParseTuple py t = None)
        \<or> (PyObject_CallMethod py m ''load_entry'' = Some t
            \<and> PyArg_ParseTuple py t = Some (em, ep)
            \<and> (PyObject_GetAttrString py em ''_log_from_c'' = None
               \<or> PyObject_GetAttrString py em ''_filter_from_c'' = None))
      \<longrightarrow> fst (embed_sim_init py argc argv s) = - 1
          \<and> pEventFn (snd (embed_sim_init py argc argv s)) = None
          \<and> (\<forall>l f. Logger_initialize l f
                 \<notin> set (emitted s (snd (embed_sim_init py argc argv s)))))
     \<and> (PyObject_CallMethod py m ''load_entry'' = Some t
         \<and> PyArg_ParseTuple py t = Some (em, ep)
         \<and> PyObject_GetAttrString py em ''_log_from_c'' = Some lf
         \<and> PyObject_GetAttrString py em ''_filter_from_c'' = Some ff
         \<and> PyObject_GetAttrString py em ''_sim_event'' = None
      \<longrightarrow> fst (embed_sim_init py argc argv s) = - 1
          \<and> pEventFn (snd (embed_sim_init py argc argv s)) = None
          \<and> Logger_initialize lf ff
               \<in> set (emitted s (snd (embed_sim_init py argc argv s))))"
proof -
  let ?s2 = "to_python (PyGILState_Ensure s)"
  let ?b = "sim_init_import py argc argv ?s2"
  have s2: "pEventFn ?s2 = None"
    using assms(1) by (simp add: prims)
  have out: "emitted s (snd (embed_sim_init py argc argv s))
      = [GILState_Ensure, To_python] @ es @ [To_simulator, GILState_Release]"
    if "trace (snd ?b) = trace ?s2 @ es" for es
    using that by (intro emitted_append) (simp add: start_unguarded [OF assms(1)] prims)
  have ret: "fst (embed_sim_init py argc argv s) = fst ?b"
    and fn: "pEventFn (snd (embed_sim_init py argc argv s)) = pEventFn (snd ?b)"
    by (simp_all add: start_unguarded [OF assms(1)] prims)
  show ?thesis
  proof (intro conjI impI)
    assume early: "PyObject_CallMethod py m ''load_entry'' = None
        \<or> (PyObject_CallMethod py m ''load_entry'' = Some t \<and> PyArg_ParseTuple py t = None)
        \<or> (PyObject_CallMethod py m ''load_entry'' = Some t
            \<and> PyArg_ParseTuple py t = Some (em, ep)
            \<and> (PyObject_GetAttrString py em ''_log_from_c'' = None
               \<or> PyObject_GetAttrString py em ''_filter_from_c'' = None))"
    from body_unresolved_early [OF s2 assms(2) early, of argc argv]
    obtain es where b: "fst ?b = - 1" "pEventFn (snd ?b) = None"
      "trace (snd ?b) = trace ?s2 @ es" "\<forall>l f. Logger_initialize l f \<notin> set es"
      by blast
    show "fst (embed_sim_init py argc argv s) = - 1"
      using b ret by simp
    show "pEventFn (snd (embed_sim_init py argc argv s)) = None"
      using b fn by simp
    show "\<forall>l f. Logger_initialize l f \<notin> set (emitted s (snd (embed_sim_init py argc argv s)))"
      using b(4) out [OF b(3)] by simp
  next
    assume ev: "PyObject_CallMethod py m ''load_entry'' = Some t
         \<and> PyArg_ParseTuple py t = Some (em, ep)
         \<and> PyObject_GetAttrString py em ''_log_from_c'' = Some lf
         \<and> PyObject_GetAttrString py em ''_filter_from_c'' = Some ff
         \<and> PyObject_GetAttrString py em ''_sim_event'' = None"
    from ev body_unresolved_event [OF s2 assms(2), of t em ep lf ff argc argv]
    obtain es where b: "fst ?b = - 1" "pEventFn (snd ?b) = None"
      "trace (snd ?b) = trace ?s2 @ es" "Logger_initialize lf ff \<in> set es"
      by auto
    show "fst (embed_sim_init py argc argv s) = - 1"
      using b ret by simp
    show "pEventFn (snd (embed_sim_init py argc argv s)) = None"
      using b fn by simp
    show "Logger_initialize lf ff \<in> set (emitted s (snd (embed_sim_init py argc argv s)))"
      using b(4) out [OF b(3)] by simp
  qed
qed

theorem start_unresolved_symbol_witness:
  "pEventFn booted = None
   \<and> PyObject_GetAttrString no_log_hook 12 ''_log_from_c'' = None
   \<and> fst (embed_sim_init no_log_hook 2 host_argv booted) = - 1
   \<and> pEventFn (snd (embed_sim_init no_log_hook 2 host_argv booted)) = None
   \<and> Logger_initialize 14 15
        \<notin> set (emitted booted (snd (embed_sim_init no_log_hook 2 host_argv booted)))
   \<and> PyObject_GetAttrString no_event_hook 12 ''_sim_event'' = None
   \<and> fst (embed_sim_init no_event_hook 2 host_argv booted) = - 1
   \<and> pEventFn (snd (embed_sim_init no_event_hook 2 host_argv booted)) = None
   \<and> Logger_initialize 14 15
        \<in> set (emitted booted (snd (embed_sim_init no_event_hook 2 host_argv booted)))"
  using
    start_unresolved_symbol [where s = booted and py = no_log_hook and m = 10 and t = 11
      and em = 12 and ep = 13 and argc = 2 and argv = host_argv]
    start_unresolved_symbol [where s = booted and py = no_event_hook and m = 10 and t = 11
      and em = 12 and ep = 13 and lf = 14 and ff = 15 and argc = 2 and argv = host_argv]
  by (simp add: no_log_hook_def no_event_hook_def good_libs_def booted_def)

text \<open>
  C2 as stated fails where the event hook alone is missing: the three other symbols
  resolve, start returns \<^verbatim>\<open>-1\<close>, and the logging bridge has been handed the log
  and the filter hook.
\<close>

theorem start_missing_event_hook_registers_logger:
  "PyImport_ImportModule no_event_hook ''pygpi.entry'' = Some 10
   \<and> PyObject_CallMethod no_event_hook 10 ''load_entry'' = Some 11
   \<and> PyArg_ParseTuple no_event_hook 11 = Some (12, 13)
   \<and> PyObject_GetAttrString no_event_hook 12 ''_log_from_c'' = Some 14
   \<and> PyObject_GetAttrString no_event_hook 12 ''_filter_from_c'' = Some 15
   \<and> PyObject_GetAttrString no_event_hook 12 ''_sim_event'' = None
   \<and> fst (embed_sim_init no_event_hook 2 host_argv booted) = - 1
   \<and> Logger_initialize 14 15
        \<in> set (emitted booted (snd (embed_sim_init no_event_hook 2 host_argv booted)))"
  by (simp add: no_event_hook_run) (simp add: no_event_hook_def good_libs_def)

subsection \<open>Start and notify: the crossing\<close>

text \<open>
  C7. In start and in notify every acquisition is matched by its release on every
  exit path. With the host holding the token before the call, the host holds it after
  the call, whatever the library answers. The call either appends nothing (the guard
  of start, or of notify), or what it appends starts with the two acquisitions and
  ends with the two releases in the opposite order, with no acquisition or release
  in between: \<^verbatim>\<open>PyGILState_Ensure\<close>, \<^verbatim>\<open>to_python\<close>, ...,
  \<^verbatim>\<open>to_simulator\<close>, \<^verbatim>\<open>PyGILState_Release\<close> in start, and \<^verbatim>\<open>to_python\<close>,
  \<^verbatim>\<open>PyGILState_Ensure\<close>, ..., \<^verbatim>\<open>PyGILState_Release\<close>, \<^verbatim>\<open>to_simulator\<close> in
  notify.
\<close>

theorem crossings_released:
  assumes "token s = Host"
  shows "token (snd (embed_sim_init py argc argv s)) = Host
     \<and> (emitted s (snd (embed_sim_init py argc argv s)) = []
        \<or> (\<exists>mid. emitted s (snd (embed_sim_init py argc argv s)) =
               [GILState_Ensure, To_python] @ mid @ [To_simulator, GILState_Release]
             \<and> set mid \<inter> {To_python, To_simulator, GILState_Ensure, GILState_Release} = {}))
     \<and> token (embed_sim_event py' msg s) = Host
     \<and> (emitted s (embed_sim_event py' msg s) = []
        \<or> (\<exists>mid. emitted s (embed_sim_event py' msg s) =
               [To_python, GILState_Ensure] @ mid @ [GILState_Release, To_simulator]
             \<and> set mid \<inter> {To_python, To_simulator, GILState_Ensure, GILState_Release} = {}))"
proof -
  have start: "token (snd (embed_sim_init py argc argv s)) = Host
     \<and> (emitted s (snd (embed_sim_init py argc argv s)) = []
        \<or> (\<exists>mid. emitted s (snd (embed_sim_init py argc argv s)) =
               [GILState_Ensure, To_python] @ mid @ [To_simulator, GILState_Release]
             \<and> set mid \<inter> {To_python, To_simulator, GILState_Ensure, GILState_Release} = {}))"
  proof (cases "pEventFn s")
    case None
    let ?s2 = "to_python (PyGILState_Ensure s)"
    obtain mid where mid: "trace (snd (sim_init_import py argc argv ?s2)) = trace ?s2 @ mid"
      "set mid \<inter> {To_python, To_simulator, GILState_Ensure, GILState_Release} = {}"
      using sim_init_import_frame [of py argc argv ?s2] by blast
    have "trace (snd (embed_sim_init py argc argv s))
        = trace s @ [GILState_Ensure, To_python] @ mid @ [To_simulator, GILState_Release]"
      using mid(1) by (simp add: start_unguarded [OF None] prims)
    then have "emitted s (snd (embed_sim_init py argc argv s))
        = [GILState_Ensure, To_python] @ mid @ [To_simulator, GILState_Release]"
      by (rule emitted_append)
    moreover have "token (snd (embed_sim_init py argc argv s)) = Host"
      by (simp add: start_unguarded [OF None] prims)
    ultimately show ?thesis using mid(2) by blast
  next
    case (Some fn)
    with assms show ?thesis by (simp add: start_guarded)
  qed
  have notify: "token (embed_sim_event py' msg s) = Host
     \<and> (emitted s (embed_sim_event py' msg s) = []
        \<or> (\<exists>mid. emitted s (embed_sim_event py' msg s) =
               [To_python, GILState_Ensure] @ mid @ [GILState_Release, To_simulator]
             \<and> set mid \<inter> {To_python, To_simulator, GILState_Ensure, GILState_Release} = {}))"
    using assms
    by (auto simp: embed_sim_event_def prims Let_def split: option.splits)
  from start notify show ?thesis by blast
qed

theorem crossings_released_witness:
  "token booted = Host
   \<and> token (snd (embed_sim_init no_event_hook 2 host_argv booted)) = Host
   \<and> emitted booted (snd (embed_sim_init no_event_hook 2 host_argv booted)) =
       [GILState_Ensure, To_python] @
       [ImportModule ''pygpi.entry'', CallMethod 10 ''load_entry'',
        GetAttrString 12 ''_log_from_c'', GetAttrString 12 ''_filter_from_c'',
        Logger_initialize 14 15, GetAttrString 12 ''_sim_event'', ErrPrint,
        DecRef 15, DecRef 14, DecRef 11, DecRef 10] @ [To_simulator, GILState_Release]
   \<and> token started = Host
   \<and> token (embed_sim_event good_libs None started) = Host
   \<and> emitted started (embed_sim_event good_libs None started) =
       [To_python, GILState_Ensure] @ [Call_event 16 ''No message provided'', DecRef 19]
         @ [GILState_Release, To_simulator]"
  using crossings_released [of booted no_event_hook 2 host_argv good_libs None]
    crossings_released [of started good_libs 2 host_argv good_libs None]
  by (simp add: no_event_hook_run started_eq)
    (simp add: booted_def embed_sim_event_def prims Let_def good_libs_def)

subsection \<open>Start: a failing entry point\<close>

text \<open>
  C3, as amended. When start has called the entry point and the call fails, start
  returns \<^verbatim>\<open>-1\<close>, and \<open>pEventFn\<close> keeps the event hook that line 320 stored
  (only cleanup clears it). So a later start takes the guard of line 259 and returns
  \<^verbatim>\<open>0\<close> at once, with the state unchanged, and a later notify calls the event
  hook once with its message.
\<close>

theorem start_entry_failure:
  assumes called: "Call_entry ep items \<in> set (emitted s (snd (embed_sim_init py argc argv s)))"
    and failed: "PyObject_CallFunctionObjArgs py ep items = None"
  shows "fst (embed_sim_init py argc argv s) = - 1
    \<and> (\<exists>em ev. PyObject_GetAttrString py em ''_sim_event'' = Some ev
          \<and> pEventFn (snd (embed_sim_init py argc argv s)) = Some ev
          \<and> embed_sim_init py' argc' argv' (snd (embed_sim_init py argc argv s))
              = (0, snd (embed_sim_init py argc argv s))
          \<and> hook_calls (emitted (snd (embed_sim_init py argc argv s))
                (embed_sim_event py' (Some m) (snd (embed_sim_init py argc argv s))))
              = [(ev, m)])"
proof -
  let ?s1 = "snd (embed_sim_init py argc argv s)"
  from entry_called(3) [OF called] failed
  have ret: "fst (embed_sim_init py argc argv s) = - 1" by simp
  from entry_called(4) [OF called]
  obtain em ev where ev: "PyObject_GetAttrString py em ''_sim_event'' = Some ev"
    "pEventFn ?s1 = Some ev" by blast
  have again: "embed_sim_init py' argc' argv' ?s1 = (0, ?s1)"
    using ev(2) by (rule start_guarded)
  have fwd: "hook_calls (emitted ?s1 (embed_sim_event py' (Some m) ?s1)) = [(ev, m)]"
    using ev(2) by (simp add: embed_sim_event_def prims Let_def split: option.splits)
  from ret ev again fwd show ?thesis by blast
qed

lemma failing_entry_called:
  "Call_entry 13 [Some [116, 101, 115, 116, 98, 101, 110, 99, 104], Some [56575, 97]]
     \<in> set (emitted booted (snd (embed_sim_init failing_entry 2 host_argv booted)))"
  by (simp add: failing_entry_run)

theorem start_entry_failure_witness:
  "Call_entry 13 [Some [116, 101, 115, 116, 98, 101, 110, 99, 104], Some [56575, 97]]
     \<in> set (emitted booted (snd (embed_sim_init failing_entry 2 host_argv booted)))
   \<and> PyObject_CallFunctionObjArgs failing_entry 13
        [Some [116, 101, 115, 116, 98, 101, 110, 99, 104], Some [56575, 97]] = None
   \<and> fst (embed_sim_init failing_entry 2 host_argv booted) = - 1
   \<and> pEventFn (snd (embed_sim_init failing_entry 2 host_argv booted)) = Some 16"
proof -
  have failed: "PyObject_CallFunctionObjArgs failing_entry 13
        [Some [116, 101, 115, 116, 98, 101, 110, 99, 104], Some [56575, 97]] = None"
    by (simp add: failing_entry_def)
  from start_entry_failure [OF failing_entry_called failed, of good_libs 2 host_argv "''sim_finish''"]
  show ?thesis using failing_entry_called failed
    by (auto simp: failing_entry_run)
qed

text \<open>
  C3 as stated fails: after a start whose call of the entry point failed (it
  returned \<^verbatim>\<open>-1\<close>), the next start returns \<^verbatim>\<open>0\<close> without doing anything, and
  a notify forwards its event to the hook.
\<close>

theorem start_entry_failure_keeps_event_hook:
  "Call_entry 13 [Some [116, 101, 115, 116, 98, 101, 110, 99, 104], Some [56575, 97]]
     \<in> set (emitted booted (snd (embed_sim_init failing_entry 2 host_argv booted)))
   \<and> PyObject_CallFunctionObjArgs failing_entry 13
        [Some [116, 101, 115, 116, 98, 101, 110, 99, 104], Some [56575, 97]] = None
   \<and> fst (embed_sim_init failing_entry 2 host_argv booted) = - 1
   \<and> pEventFn (snd (embed_sim_init failing_entry 2 host_argv booted)) = Some 16
   \<and> fst (embed_sim_init good_libs 2 host_argv
            (snd (embed_sim_init failing_entry 2 host_argv booted))) = 0
   \<and> emitted (snd (embed_sim_init failing_entry 2 host_argv booted))
        (snd (embed_sim_init good_libs 2 host_argv
               (snd (embed_sim_init failing_entry 2 host_argv booted)))) = []
   \<and> hook_calls (emitted (snd (embed_sim_init failing_entry 2 host_argv booted))
        (embed_sim_event good_libs (Some ''sim_finish'')
           (snd (embed_sim_init failing_entry 2 host_argv booted))))
       = [(16, ''sim_finish'')]"
  by (simp add: failing_entry_run)
    (simp add: failing_entry_def embed_sim_init_def embed_sim_event_def prims Let_def
      good_libs_def)

subsection \<open>Start: the argument strings\<close>

text \<open>The decoding of the concrete executions is reversible.\<close>

lemma escape_roundtrip: "escape_decode b ''surrogateescape'' = Some u \<Longrightarrow> escape_encode u = b"
  by (auto simp: escape_decode_def escape_encode_def o_def intro!: map_idI)

text \<open>
  C9. Every argument string is marshalled with the handler \<^verbatim>\<open>surrogateescape\<close>
  and nothing is dropped, reordered or cut. Whenever start calls the entry point, the
  list it hands over has one item per index below \<open>argc\<close>, none of them
  \<^verbatim>\<open>NULL\<close>, and item \<open>i\<close> is what \<^verbatim>\<open>PyUnicode_DecodeLocale\<close> answers for
  \<^verbatim>\<open>_argv[i]\<close> with that handler; no other handler is ever passed. The decoder
  itself belongs to the runtime, so its reversibility (PEP 383: encoding with the
  handler what was decoded with it gives the bytes back) is a premise: under it,
  encoding the list gives exactly the host's byte strings.
\<close>

theorem start_argv_lossless:
  assumes called: "Call_entry ep items \<in> set (emitted s (snd (embed_sim_init py argc argv s)))"
    and law: "\<forall>b u. PyUnicode_DecodeLocale py b ''surrogateescape'' = Some u \<longrightarrow> encode u = b"
  shows "items = map (\<lambda>i. PyUnicode_DecodeLocale py (argv i) ''surrogateescape'') [0..<nat argc]
     \<and> None \<notin> set items
     \<and> map (map_option encode) items = map (\<lambda>i. Some (argv i)) [0..<nat argc]
     \<and> (\<forall>b h. DecodeLocale b h \<in> set (emitted s (snd (embed_sim_init py argc argv s)))
           \<longrightarrow> h = ''surrogateescape'')"
proof -
  have guard: "pEventFn s = None"
    using called by (rule entry_called(1))
  have loop: "argv_items py argv 0 (nat argc) (replicate (nat argc) None) = Some items"
    using called by (rule entry_called(2))
  have items: "items = map (\<lambda>i. PyUnicode_DecodeLocale py (argv i) ''surrogateescape'') [0..<nat argc]"
    and some: "None \<notin> set items"
    using argv_items_all [OF loop] by simp_all
  have "map_option encode (PyUnicode_DecodeLocale py (argv i) ''surrogateescape'') = Some (argv i)"
    if "i < nat argc" for i
  proof -
    have "PyUnicode_DecodeLocale py (argv i) ''surrogateescape'' \<in> set items"
      using that by (subst items) simp
    with some obtain u where "PyUnicode_DecodeLocale py (argv i) ''surrogateescape'' = Some u"
      by (cases "PyUnicode_DecodeLocale py (argv i) ''surrogateescape''") auto
    with law show ?thesis by simp
  qed
  then have reenc: "map (map_option encode) items = map (\<lambda>i. Some (argv i)) [0..<nat argc]"
    by (subst items) simp
  let ?s2 = "to_python (PyGILState_Ensure s)"
  obtain es where es: "trace (snd (sim_init_import py argc argv ?s2)) = trace ?s2 @ es"
    and handler: "\<forall>b h. DecodeLocale b h \<in> set es \<longrightarrow> h = ''surrogateescape''"
    using body_entry_called [of py argc argv ?s2 ep items] by blast
  have "trace (snd (embed_sim_init py argc argv s))
      = trace s @ [GILState_Ensure, To_python] @ es @ [To_simulator, GILState_Release]"
    using es by (simp add: start_unguarded [OF guard] prims)
  then have "emitted s (snd (embed_sim_init py argc argv s))
      = [GILState_Ensure, To_python] @ es @ [To_simulator, GILState_Release]"
    by (rule emitted_append)
  with handler have "\<forall>b h. DecodeLocale b h \<in> set (emitted s (snd (embed_sim_init py argc argv s)))
           \<longrightarrow> h = ''surrogateescape''"
    by simp
  with items some reenc show ?thesis by blast
qed

lemma started_called:
  "Call_entry 13 [Some [116, 101, 115, 116, 98, 101, 110, 99, 104], Some [56575, 97]]
     \<in> set (emitted booted (snd (embed_sim_init good_libs 2 host_argv booted)))"
  by (simp add: started_eq)

theorem start_argv_lossless_witness:
  "Call_entry 13 [Some [116, 101, 115, 116, 98, 101, 110, 99, 104], Some [56575, 97]]
     \<in> set (emitted booted (snd (embed_sim_init good_libs 2 host_argv booted)))
   \<and> escape_decode [CHR 0xFF, CHR ''a''] ''strict'' = None
   \<and> escape_decode [CHR 0xFF, CHR ''a''] ''surrogateescape'' = Some [56575, 97]
   \<and> map (map_option escape_encode)
        [Some [116, 101, 115, 116, 98, 101, 110, 99, 104], Some [56575, 97]]
       = [Some ''testbench'', Some [CHR 0xFF, CHR ''a'']]"
proof -
  have law: "\<forall>b u. PyUnicode_DecodeLocale good_libs b ''surrogateescape'' = Some u
      \<longrightarrow> escape_encode u = b"
    by (simp add: good_libs_def escape_roundtrip)
  have "map (\<lambda>i. Some (host_argv i)) [0..<nat 2] = [Some ''testbench'', Some [CHR 0xFF, CHR ''a'']]"
    by (simp add: host_argv_def upt_rec)
  with start_argv_lossless [OF started_called law]
  show ?thesis using started_called
    by (simp add: escape_decode_def escape_encode_def good_libs_def host_argv_def upt_rec)
qed

subsection \<open>Start after cleanup\<close>



lemma cleanup_ensure_returns:
  "py_initialized s \<Longrightarrow>
     PyGILState_Ensure_call (to_python s) = Inr (PyGILState_Ensure (to_python s))"
  by (simp add: PyGILState_Ensure_call_def prims)




subsection \<open>Boot: the blocks\<close>

lemma sleeps_append [simp]: "sleeps (xs @ ys) = sleeps xs @ sleeps ys"
  by (induction xs rule: sleeps.induct) simp_all

lemmas strtoul_defs = strtoul_def strtoul_subject_def isspace_def isdigit_def digits_value_def
  ULONG_MAX_def

lemma boot_failed_run:
  "embed_init_python linux venv failing_init fresh = Inr boot_failed"
  "embed_init_python linux (venv(''COCOTB_ATTACH'' \<mapsto> ''2'')) failing_init fresh = Inr boot_failed"
  by (simp_all add: boot_defs prims fresh_def boot_failed_def failing_init_def fixture_defs)

lemma strtoul_2: "strtoul ''2'' e = (2, e)"
  by (simp add: strtoul_defs)

lemma strtoul_0: "strtoul ''0'' e = (0, e)"
  by (simp add: strtoul_defs)

lemma strtoul_no_digits: "takeWhile isdigit (snd (strtoul_subject v)) = [] \<Longrightarrow> strtoul v e = (0, e)"
  by (cases "strtoul_subject v") (simp add: strtoul_def)

lemma strtoul_errno: "fst (strtoul v e) = 2 \<Longrightarrow> snd (strtoul v e) = e"
  by (auto simp: strtoul_def Let_def ULONG_MAX_def split: if_splits prod.splits)

lemma attach_wait_fields [simp]:
  "gtstate (attach_wait env py s) = gtstate s"
  "pEventFn (attach_wait env py s) = pEventFn s"
  "py_initialized (attach_wait env py s) = py_initialized s"
  "token (attach_wait env py s) = token s"
  by (simp_all add: attach_wait_def emit_def Let_def split: option.splits prod.splits)

lemma set_log_level_fields [simp]:
  "gtstate (set_log_level env s) = gtstate s"
  "pEventFn (set_log_level env s) = pEventFn s"
  "py_initialized (set_log_level env s) = py_initialized s"
  "token (set_log_level env s) = token s"
  "sleeps (trace (set_log_level env s)) = sleeps (trace s)"
  by (simp_all add: set_log_level_def emit_def split: option.splits)

lemma log_status_fields [simp]:
  "gtstate (log_status st s) = gtstate s"
  "pEventFn (log_status st s) = pEventFn s"
  "py_initialized (log_status st s) = py_initialized s"
  "token (log_status st s) = token s"
  "sleeps (trace (log_status st s)) = sleeps (trace s)"
  by (simp_all add: log_status_def emit_def Let_def split: option.splits)

lemma check_sys_executable_fields [simp]:
  "gtstate (check_sys_executable py p s) = gtstate s"
  "pEventFn (check_sys_executable py p s) = pEventFn s"
  "py_initialized (check_sys_executable py p s) = py_initialized s"
  "token (check_sys_executable py p s) = token s"
  "sleeps (trace (check_sys_executable py p s)) = sleeps (trace s)"
  by (simp_all add: check_sys_executable_def emit_def split: option.splits)

text \<open>A boot that initialises the runtime goes through to the wait.\<close>

lemma boot_initialised:
  assumes "embed_init_python pf env py s = Inr s1" "\<not> py_initialized s" "py_initialized s1"
  shows "\<exists>s8. s1 = attach_wait env py s8 \<and> gtstate s8 = Some (PyEval_SaveThread py)
           \<and> token s8 = Host \<and> sleeps (trace s8) = sleeps (trace s)"
  using assms
  by (auto simp: embed_init_python_def get_interpreter_path_def initialize_runtime_def
      save_thread_def to_python_def to_simulator_def emit_def Let_def
      split: option.splits if_splits)

lemma attach_wait_2:
  assumes "env ''COCOTB_ATTACH'' = Some v" "fst (strtoul v (errno_before_strtoul py)) = 2"
    "errno_before_strtoul py \<noteq> ERANGE"
  shows "trace (attach_wait env py s) = trace s @
     [Log GPIError ''Waiting for %lu seconds - attach to PID %d with your debugger'', Sleep 2]"
  using assms strtoul_errno [OF assms(2)]
  by (cases "strtoul v (errno_before_strtoul py)") (simp add: attach_wait_def emit_def UINT_MAX_def)

lemma attach_wait_0:
  assumes "env ''COCOTB_ATTACH'' = Some v" "fst (strtoul v (errno_before_strtoul py)) = 0"
  shows "trace (attach_wait env py s) = trace s @
       [Log GPIError ''COCOTB_ATTACH must be set to an integer base 10 or omitted'']
     \<or> trace (attach_wait env py s) = trace s @
       [Log GPIError ''COCOTB_ATTACH only needs to be set to ~30 seconds'']"
  using assms
  by (cases "strtoul v (errno_before_strtoul py)") (auto simp: attach_wait_def emit_def)

lemma fresh_fields [simp]:
  "gtstate fresh = None" "pEventFn fresh = None" "\<not> py_initialized fresh"
  "token fresh = Host" "trace fresh = []"
  by (simp_all add: fresh_def)

subsection \<open>Boot without an interpreter path\<close>

text \<open>
  C1 does not hold of the code. When \<^verbatim>\<open>PYTHON_BIN\<close> is absent, boot logs the
  informational note (which says that the system-wide interpreter is used) and
  returns at line 140: what it returns is the state after the log level was read, with
  the token handed to the interpreter by line 132 and never handed back. The runtime
  is not initialised and \<open>gtstate\<close> stays \<^verbatim>\<open>NULL\<close>.
\<close>

theorem boot_without_interpreter_path:
  assumes "gtstate s = None" and "env ''PYTHON_BIN'' = None"
  shows "\<exists>s1. embed_init_python pf env py s = Inr s1
     \<and> s1 = (set_log_level env s)\<lparr>token := Interpreter,
          trace := trace (set_log_level env s) @
            [To_python,
             Log GPIInfo
               ''Did not detect Python virtual environment. Using system-wide Python interpreter'']\<rparr>
     \<and> py_initialized s1 = py_initialized s
     \<and> gtstate s1 = None
     \<and> token s1 = Interpreter"
  using assms
  by (simp add: embed_init_python_def get_interpreter_path_def to_python_def emit_def Let_def)

theorem boot_without_interpreter_path_witness:
  "gtstate fresh = None
   \<and> (Map.empty :: environ) ''PYTHON_BIN'' = None
   \<and> embed_init_python linux Map.empty good_libs fresh =
       Inr \<lparr>gtstate = None, pEventFn = None, py_initialized = False, token = Interpreter,
            trace = [To_python,
              Log GPIInfo
                ''Did not detect Python virtual environment. Using system-wide Python interpreter'']\<rparr>"
  using boot_without_interpreter_path [of fresh Map.empty linux good_libs]
  by (auto simp: fresh_def set_log_level_def)

subsection \<open>Boot called again\<close>

text \<open>
  C5, as amended. After a boot that initialised the runtime, \<open>gtstate\<close> holds the
  saved thread state, and another call of boot, whatever its environment and library
  answers, fails the assertion of line 116 before it does anything else.
\<close>

theorem boot_again_asserts:
  assumes "embed_init_python pf env py s = Inr s1"
    and "\<not> py_initialized s" and "py_initialized s1"
  shows "gtstate s1 = Some (PyEval_SaveThread py)
    \<and> embed_init_python pf' env' py' s1 = Inl (Assertion_failed ''!gtstate'')"
proof -
  from boot_initialised [OF assms]
  have "gtstate s1 = Some (PyEval_SaveThread py)" by auto
  then show ?thesis by (simp add: embed_init_python_def)
qed

theorem boot_again_asserts_witness:
  "embed_init_python linux venv good_libs fresh = Inr booted
   \<and> \<not> py_initialized fresh \<and> py_initialized booted
   \<and> gtstate booted = Some 1
   \<and> embed_init_python linux venv good_libs booted = Inl (Assertion_failed ''!gtstate'')"
proof -
  have init: "\<not> py_initialized fresh" "py_initialized booted"
    by (simp_all add: fresh_def booted_def)
  from boot_again_asserts [OF boot_fresh init, of linux venv good_libs]
  show ?thesis using boot_fresh init by (simp add: good_libs_def)
qed

lemma boot_failed_again:
  "embed_init_python linux venv good_libs boot_failed =
     Inr (booted\<lparr>trace := trace boot_failed @ trace booted\<rparr>)"
  by (simp add: boot_defs prims boot_failed_def booted_def fixture_defs)

text \<open>
  C5 as stated fails after a boot that returned early. Here the initialisation
  failed: boot logged the error and returned, \<open>gtstate\<close> is still \<^verbatim>\<open>NULL\<close>, and
  the second call does not fail the assertion.
\<close>

theorem boot_again_after_failed_boot:
  "embed_init_python linux venv failing_init fresh = Inr boot_failed
   \<and> gtstate boot_failed = None
   \<and> embed_init_python linux venv good_libs boot_failed \<noteq> Inl (Assertion_failed ''!gtstate'')"
  by (simp add: boot_failed_run boot_failed_again) (simp add: boot_failed_def)

subsection \<open>Boot: the wait for a debugger\<close>

text \<open>
  C8, as amended. Let boot initialise the runtime (so that it reaches line 205) with
  \<^verbatim>\<open>COCOTB_ATTACH\<close> set. If the value parses to 2, and \<^verbatim>\<open>errno\<close> is not
  \<^verbatim>\<open>ERANGE\<close> when \<^verbatim>\<open>strtoul\<close> is called, boot sleeps once, for 2 seconds. If the
  value is \<^verbatim>\<open>0\<close> or has no digit where the number is expected, boot does not
  sleep, and the last thing it does is to log one of the two errors of lines 212 and
  216.
\<close>

theorem boot_attach_wait:
  assumes boot: "embed_init_python pf env py s = Inr s1"
    and init: "\<not> py_initialized s" "py_initialized s1"
    and attach: "env ''COCOTB_ATTACH'' = Some v"
  shows "(fst (strtoul v (errno_before_strtoul py)) = 2 \<and> errno_before_strtoul py \<noteq> ERANGE
          \<longrightarrow> sleeps (trace s1) = sleeps (trace s) @ [2])
       \<and> (v = ''0'' \<or> takeWhile isdigit (snd (strtoul_subject v)) = []
          \<longrightarrow> sleeps (trace s1) = sleeps (trace s)
            \<and> (last (trace s1)
                 = Log GPIError ''COCOTB_ATTACH must be set to an integer base 10 or omitted''
               \<or> last (trace s1)
                 = Log GPIError ''COCOTB_ATTACH only needs to be set to ~30 seconds''))"
proof -
  from boot_initialised [OF boot init]
  obtain s8 where s8: "s1 = attach_wait env py s8" "sleeps (trace s8) = sleeps (trace s)"
    by blast
  show ?thesis
  proof (intro conjI impI)
    assume "fst (strtoul v (errno_before_strtoul py)) = 2 \<and> errno_before_strtoul py \<noteq> ERANGE"
    then show "sleeps (trace s1) = sleeps (trace s) @ [2]"
      using attach attach_wait_2 [of env v py s8] s8 by simp
  next
    assume "v = ''0'' \<or> takeWhile isdigit (snd (strtoul_subject v)) = []"
    then have zero: "fst (strtoul v (errno_before_strtoul py)) = 0"
      by (auto simp: strtoul_0 strtoul_no_digits)
    from attach zero attach_wait_0 [of env v py s8] s8
    show "sleeps (trace s1) = sleeps (trace s)"
      by auto
    from attach zero attach_wait_0 [of env v py s8] s8
    show "last (trace s1)
            = Log GPIError ''COCOTB_ATTACH must be set to an integer base 10 or omitted''
          \<or> last (trace s1)
            = Log GPIError ''COCOTB_ATTACH only needs to be set to ~30 seconds''"
      by auto
  qed
qed

lemma boot_attach_runs:
  "embed_init_python linux (venv(''COCOTB_ATTACH'' \<mapsto> ''2'')) good_libs fresh =
     Inr (booted\<lparr>trace := trace booted @
       [Log GPIError ''Waiting for %lu seconds - attach to PID %d with your debugger'', Sleep 2]\<rparr>)"
  "embed_init_python linux (venv(''COCOTB_ATTACH'' \<mapsto> ''0'')) good_libs fresh =
     Inr (booted\<lparr>trace := trace booted @
       [Log GPIError ''COCOTB_ATTACH must be set to an integer base 10 or omitted'']\<rparr>)"
  "embed_init_python linux (venv(''COCOTB_ATTACH'' \<mapsto> ''soon'')) good_libs fresh =
     Inr (booted\<lparr>trace := trace booted @
       [Log GPIError ''COCOTB_ATTACH must be set to an integer base 10 or omitted'']\<rparr>)"
  by (simp_all add: boot_defs prims fresh_def booted_def fixture_defs strtoul_defs ERANGE_def
      UINT_MAX_def)

theorem boot_attach_wait_witness:
  "fst (strtoul ''2'' (errno_before_strtoul good_libs)) = 2
   \<and> errno_before_strtoul good_libs \<noteq> ERANGE
   \<and> sleeps (trace booted) = []
   \<and> (\<exists>s1. embed_init_python linux (venv(''COCOTB_ATTACH'' \<mapsto> ''2'')) good_libs fresh = Inr s1
         \<and> sleeps (trace s1) = [2])
   \<and> (\<exists>s1. embed_init_python linux (venv(''COCOTB_ATTACH'' \<mapsto> ''0'')) good_libs fresh = Inr s1
         \<and> sleeps (trace s1) = []
         \<and> last (trace s1)
             = Log GPIError ''COCOTB_ATTACH must be set to an integer base 10 or omitted'')
   \<and> takeWhile isdigit (snd (strtoul_subject ''soon'')) = []
   \<and> (\<exists>s1. embed_init_python linux (venv(''COCOTB_ATTACH'' \<mapsto> ''soon'')) good_libs fresh = Inr s1
         \<and> sleeps (trace s1) = []
         \<and> last (trace s1)
             = Log GPIError ''COCOTB_ATTACH must be set to an integer base 10 or omitted'')"
proof -
  have init: "\<not> py_initialized fresh"
    "py_initialized (booted\<lparr>trace := trace booted @
       [Log GPIError ''Waiting for %lu seconds - attach to PID %d with your debugger'', Sleep 2]\<rparr>)"
    "py_initialized (booted\<lparr>trace := trace booted @
       [Log GPIError ''COCOTB_ATTACH must be set to an integer base 10 or omitted'']\<rparr>)"
    by (simp_all add: booted_def)
  have two: "fst (strtoul ''2'' (errno_before_strtoul good_libs)) = 2
      \<and> errno_before_strtoul good_libs \<noteq> ERANGE"
    by (simp add: strtoul_2 good_libs_def ERANGE_def)
  have soon: "takeWhile isdigit (snd (strtoul_subject ''soon'')) = []"
    by (simp add: strtoul_subject_def isspace_def isdigit_def)
  from boot_attach_wait [OF boot_attach_runs(1) init(1,2), of "''2''"]
    boot_attach_wait [OF boot_attach_runs(2) init(1,3), of "''0''"]
    boot_attach_wait [OF boot_attach_runs(3) init(1,3), of "''soon''"]
  show ?thesis using two soon
    by (simp add: boot_attach_runs strtoul_0)
qed

text \<open>
  C8 as stated fails for a boot that does not get to line 205: with a failing
  initialisation boot returns at line 175 and never sleeps, although the value
  parses to 2.
\<close>

theorem boot_failed_init_skips_wait:
  "(venv(''COCOTB_ATTACH'' \<mapsto> ''2'')) ''COCOTB_ATTACH'' = Some ''2''
   \<and> fst (strtoul ''2'' (errno_before_strtoul failing_init)) = 2
   \<and> embed_init_python linux (venv(''COCOTB_ATTACH'' \<mapsto> ''2'')) failing_init fresh
       = Inr boot_failed
   \<and> sleeps (trace boot_failed) = []"
  by (simp add: boot_failed_run strtoul_2) (simp add: boot_failed_def)

text \<open>
  The source reads \<^verbatim>\<open>errno\<close> without resetting it before \<^verbatim>\<open>strtoul\<close>: with
  \<^verbatim>\<open>ERANGE\<close> left by an earlier call, the value 2 is refused.
\<close>

lemma attach_stale_errno:
  "embed_init_python linux (venv(''COCOTB_ATTACH'' \<mapsto> ''2''))
       (good_libs\<lparr>errno_before_strtoul := ERANGE\<rparr>) fresh =
     Inr (booted\<lparr>trace := trace booted @
       [Log GPIError ''COCOTB_ATTACH only needs to be set to ~30 seconds'']\<rparr>)"
  by (simp add: boot_defs prims fresh_def booted_def fixture_defs strtoul_2)

subsection \<open>Cleanup\<close>

text \<open>
  C4. Cleanup is idempotent. Where the runtime is initialised (after a successful
  boot), one call finalises it and clears \<open>pEventFn\<close>; a second call changes
  nothing and appends nothing; over both calls the reference in \<open>pEventFn\<close> is
  released once if there is one and never otherwise, and the runtime is finalised once.
\<close>

theorem cleanup_idempotent:
  "py_initialized s \<Longrightarrow>
     \<not> py_initialized (embed_sim_cleanup s)
     \<and> pEventFn (embed_sim_cleanup s) = None
     \<and> embed_sim_cleanup (embed_sim_cleanup s) = embed_sim_cleanup s
     \<and> emitted (embed_sim_cleanup s) (embed_sim_cleanup (embed_sim_cleanup s)) = []
     \<and> emitted s (embed_sim_cleanup (embed_sim_cleanup s)) =
         [To_python, GILState_Ensure]
           @ (case pEventFn s of None \<Rightarrow> [] | Some fn \<Rightarrow> [DecRef fn])
           @ [Logger_finalize, Finalize, To_simulator]
     \<and> count_list (emitted s (embed_sim_cleanup (embed_sim_cleanup s))) (DecRef fn) \<le> 1"
  by (simp add: embed_sim_cleanup_def prims Let_def split: option.splits)

theorem cleanup_idempotent_witness:
  "py_initialized started
   \<and> \<not> py_initialized (embed_sim_cleanup started)
   \<and> pEventFn (embed_sim_cleanup started) = None
   \<and> embed_sim_cleanup (embed_sim_cleanup started) = embed_sim_cleanup started
   \<and> emitted started (embed_sim_cleanup (embed_sim_cleanup started)) =
       [To_python, GILState_Ensure, DecRef 16, Logger_finalize, Finalize, To_simulator]"
  using cleanup_idempotent [of started 16]
  by (simp add: started_eq embed_sim_cleanup_def prims Let_def emitted_def)

subsection \<open>Event forwarding\<close>

text \<open>
  C6. A notification is a no-op while \<open>pEventFn\<close> is \<^verbatim>\<open>NULL\<close> (never resolved, or
  cleared by cleanup). Otherwise the event hook is called exactly once: with the text
  \<^verbatim>\<open>No message provided\<close> when the message is absent, with the message when
  there is one.
\<close>

theorem notify_default_message:
  "(pEventFn s = None \<longrightarrow> embed_sim_event py msg s = s)
   \<and> (pEventFn s = Some fn \<longrightarrow>
        hook_calls (emitted s (embed_sim_event py None s)) = [(fn, ''No message provided'')]
        \<and> hook_calls (emitted s (embed_sim_event py (Some m) s)) = [(fn, m)])"
  by (simp add: embed_sim_event_def prims Let_def split: option.splits)

theorem notify_default_message_witness:
  "pEventFn fresh = None
   \<and> embed_sim_event good_libs None fresh = fresh
   \<and> pEventFn started = Some 16
   \<and> hook_calls (emitted started (embed_sim_event good_libs None started))
       = [(16, ''No message provided'')]"
  using notify_default_message [of fresh good_libs None 16 "''sim_finish''"]
    notify_default_message [of started good_libs None 16 "''sim_finish''"]
  by (simp add: fresh_def started_eq embed_sim_event_def prims Let_def emitted_def good_libs_def)

end
